theory Spec2Isabelle
  imports Complex_Main "HOL-Library.Word"
begin

unbundle bit_operations_syntax

section \<open>ctypes layouts\<close>

text \<open>
  The module \<^verbatim>\<open>pyatop/structs/atop_230.py\<close> declares the on-disk records of atop 2.30
  as \<^verbatim>\<open>ctypes.Structure\<close> classes. A class is described by its \<^verbatim>\<open>_fields_\<close> list; the
  field types used by the module are the scalar types below, fixed-length arrays
  (\<^verbatim>\<open>t * n\<close>) and other structures.
\<close>

datatype ctype =
    c_char | c_ushort | c_int | c_uint | c_long | c_ulong | c_longlong | c_float
  | Array ctype nat
  | Structure "(string \<times> ctype) list"

text \<open>
  \<^verbatim>\<open>ctypes.sizeof\<close> for a structure without \<^verbatim>\<open>_pack_\<close> (none of the classes of the
  module sets it) follows the native rule of the C compiler: every field is placed at the
  next offset that is a multiple of the alignment of its type, the alignment of the
  structure is the largest alignment among its fields, and the size is the end offset
  rounded up to that alignment. An array has the alignment of its element and
  \<open>n\<close> times its size. The scalar sizes are those of Linux on x86-64 (LP64), the
  platform atop writes its logs on: \<^verbatim>\<open>long\<close> has 8 bytes.
\<close>

definition round_up :: "nat \<Rightarrow> nat \<Rightarrow> nat" where
  "round_up off a = (if off mod a = 0 then off else off + (a - off mod a))"

fun sizeof :: "ctype \<Rightarrow> nat"
  and alignment :: "ctype \<Rightarrow> nat"
  and end_offset :: "(string \<times> ctype) list \<Rightarrow> nat \<Rightarrow> nat"
  and total_align :: "(string \<times> ctype) list \<Rightarrow> nat \<Rightarrow> nat"
where
  "sizeof c_char = 1"
| "sizeof c_ushort = 2"
| "sizeof c_int = 4"
| "sizeof c_uint = 4"
| "sizeof c_long = 8"
| "sizeof c_ulong = 8"
| "sizeof c_longlong = 8"
| "sizeof c_float = 4"
| "sizeof (Array t n) = sizeof t * n"
| "sizeof (Structure fs) = round_up (end_offset fs 0) (total_align fs 1)"
| "alignment c_char = 1"
| "alignment c_ushort = 2"
| "alignment c_int = 4"
| "alignment c_uint = 4"
| "alignment c_long = 8"
| "alignment c_ulong = 8"
| "alignment c_longlong = 8"
| "alignment c_float = 4"
| "alignment (Array t n) = alignment t"
| "alignment (Structure fs) = total_align fs 1"
| "end_offset [] off = off"
| "end_offset (f # fs) off =
     end_offset fs (round_up off (alignment (snd f)) + sizeof (snd f))"
| "total_align [] a = a"
| "total_align (f # fs) a = total_align fs (max (alignment (snd f)) a)"

text \<open>The \<^verbatim>\<open>_fields_\<close> attribute of a class, and the type a field is declared with.\<close>

fun struct_fields :: "ctype \<Rightarrow> (string \<times> ctype) list" where
  "struct_fields (Structure fs) = fs"
| "struct_fields t = []"

definition field_type :: "ctype \<Rightarrow> string \<Rightarrow> ctype option" where
  "field_type t nm = map_of (struct_fields t) nm"

text \<open>The byte offset of a field (\<^verbatim>\<open>Class.field.offset\<close>), \<open>None\<close> for an unknown name.\<close>

fun offset_of :: "(string \<times> ctype) list \<Rightarrow> nat \<Rightarrow> string \<Rightarrow> nat option" where
  "offset_of [] off nm = None"
| "offset_of (f # fs) off nm =
     (if fst f = nm then Some (round_up off (alignment (snd f)))
      else offset_of fs (round_up off (alignment (snd f)) + sizeof (snd f)) nm)"

definition field_offset :: "ctype \<Rightarrow> string \<Rightarrow> nat option" where
  "field_offset t nm = offset_of (struct_fields t) 0 nm"

text \<open>The sum of the widths of the declared fields, with nothing added between them.\<close>

definition field_widths :: "ctype \<Rightarrow> nat" where
  "field_widths t = sum_list (map (\<lambda>f. sizeof (snd f)) (struct_fields t))"

section \<open>The module of atop 1.26\<close>

text \<open>
  \<^verbatim>\<open>from pyatop.structs import atop_126\<close>: the classes the 2.30 module takes from the
  module of atop 1.26. Their field lists are declared there, so the module is a parameter
  \<open>m\<close> of everything that depends on them.
\<close>

record atop_126 =
  UTSName :: ctype
  FreqCnt :: ctype
  WWWStat :: ctype
  IPv4Stats :: ctype
  ICMPv4Stats :: ctype
  UDPv4Stats :: ctype
  TCPStats :: ctype
  IPv6Stats :: ctype
  ICMPv6Stats :: ctype
  UDPv6Stats :: ctype
  NETStat :: ctype
  CPU :: ctype
  DSK :: ctype

section \<open>The module of atop 2.30\<close>

definition time_t :: ctype where "time_t = c_long"
definition count_t :: ctype where "count_t = c_longlong"
definition off_t :: ctype where "off_t = c_long"

definition PNAMLEN :: nat where "PNAMLEN = 15"
definition CMDLEN :: nat where "CMDLEN = 255"

definition MAXCPU :: nat where "MAXCPU = 2048"
definition MAXDSK :: nat where "MAXDSK = 1024"
definition MAXLVM :: nat where "MAXLVM = 2048"
definition MAXMDD :: nat where "MAXMDD = 256"
definition MAXINTF :: nat where "MAXINTF = 128"
definition MAXCONTAINER :: nat where "MAXCONTAINER = 128"
definition MAXNFSMOUNT :: nat where "MAXNFSMOUNT = 64"
definition MAXDKNAM :: nat where "MAXDKNAM = 32"

definition UTSName :: "atop_126 \<Rightarrow> ctype" where
  "UTSName m = atop_126.UTSName m"

definition Header :: "atop_126 \<Rightarrow> ctype" where
  "Header m = Structure [
     (''magic'', c_uint),
     (''aversion'', c_ushort),
     (''future1'', c_ushort),
     (''future2'', c_ushort),
     (''rawheadlen'', c_ushort),
     (''rawreclen'', c_ushort),
     (''hertz'', c_ushort),
     (''sfuture'', Array c_ushort 6),
     (''sstatlen'', c_uint),
     (''tstatlen'', c_uint),
     (''utsname'', UTSName m),
     (''cfuture'', Array c_char 8),
     (''pagesize'', c_uint),
     (''supportflags'', c_int),
     (''osrel'', c_int),
     (''osvers'', c_int),
     (''ossub'', c_int),
     (''ifuture'', Array c_int 6)]"

definition Record :: ctype where
  "Record = Structure [
     (''curtime'', time_t),
     (''flags'', c_ushort),
     (''sfuture'', Array c_ushort 3),
     (''scomplen'', c_uint),
     (''pcomplen'', c_uint),
     (''interval'', c_uint),
     (''ndeviat'', c_uint),
     (''nactproc'', c_uint),
     (''ntask'', c_uint),
     (''totproc'', c_uint),
     (''totrun'', c_uint),
     (''totslpi'', c_uint),
     (''totslpu'', c_uint),
     (''totzomb'', c_uint),
     (''nexit'', c_uint),
     (''noverflow'', c_uint),
     (''ifuture'', Array c_uint 6)]"

text \<open>
  The field descriptions of the docstring of \<^verbatim>\<open>Record\<close> (``Field descriptions from
  atop''), in the order they are written.
\<close>

definition Record_doc :: "(string \<times> string) list" where
  "Record_doc = [
     (''curtime'', ''Current time (epoch).''),
     (''flags'', ''Various flags.''),
     (''sfuture[3]'', ''Future use.''),
     (''scomplen'', ''Length of compressed sstat.''),
     (''pcomplen'', ''Length of compressed tstats.''),
     (''interval'', ''Interval (number of seconds).''),
     (''ndeviat'', ''Number of tasks in list.''),
     (''nactproc'', ''Number of processes in list.''),
     (''ntask'', ''Total number of tasks.''),
     (''totproc'', ''Total number of processes.''),
     (''totrun'', ''Number of running  threads.''),
     (''totslpi'', ''Number of sleeping threads(S).''),
     (''totslpu'', ''Number of sleeping threads(D).''),
     (''totzomb'', ''Number of zombie processes.''),
     (''nexit'', ''Number of exited processes.''),
     (''noverflow'', ''Number of overflow processes.''),
     (''ifuture[6]'', ''Future use.'')]"

definition MemStat :: ctype where
  "MemStat = Structure [
     (''physmem'', count_t),
     (''freemem'', count_t),
     (''buffermem'', count_t),
     (''slabmem'', count_t),
     (''cachemem'', count_t),
     (''cachedrt'', count_t),
     (''totswap'', count_t),
     (''freeswap'', count_t),
     (''pgscans'', count_t),
     (''pgsteal'', count_t),
     (''allocstall'', count_t),
     (''swouts'', count_t),
     (''swins'', count_t),
     (''commitlim'', count_t),
     (''committed'', count_t),
     (''shmem'', count_t),
     (''shmrss'', count_t),
     (''shmswp'', count_t),
     (''slabreclaim'', count_t),
     (''tothugepage'', count_t),
     (''freehugepage'', count_t),
     (''hugepagesz'', count_t),
     (''vmwballoon'', count_t),
     (''cfuture'', Array count_t 8)]"

definition FreqCnt :: "atop_126 \<Rightarrow> ctype" where
  "FreqCnt m = atop_126.FreqCnt m"

definition PerCPU :: "atop_126 \<Rightarrow> ctype" where
  "PerCPU m = Structure [
     (''cpunr'', c_int),
     (''stime'', count_t),
     (''utime'', count_t),
     (''ntime'', count_t),
     (''itime'', count_t),
     (''wtime'', count_t),
     (''Itime'', count_t),
     (''Stime'', count_t),
     (''steal'', count_t),
     (''guest'', count_t),
     (''freqcnt'', FreqCnt m),
     (''cfuture'', Array count_t 4)]"

definition CPUStat :: "atop_126 \<Rightarrow> ctype" where
  "CPUStat m = Structure [
     (''nrcpu'', count_t),
     (''devint'', count_t),
     (''csw'', count_t),
     (''nprocs'', count_t),
     (''lavg1'', c_float),
     (''lavg5'', c_float),
     (''lavg15'', c_float),
     (''cfuture'', Array count_t 4),
     (''all'', PerCPU m),
     (''cpu'', Array (PerCPU m) MAXCPU)]"

definition PerDSK :: ctype where
  "PerDSK = Structure [
     (''name'', Array c_char MAXDKNAM),
     (''nread'', count_t),
     (''nrsect'', count_t),
     (''nwrite'', count_t),
     (''nwsect'', count_t),
     (''io_ms'', count_t),
     (''avque'', count_t),
     (''cfuture'', Array count_t 4)]"

definition DSKStat :: ctype where
  "DSKStat = Structure [
     (''ndsk'', c_int),
     (''nmdd'', c_int),
     (''nlvm'', c_int),
     (''dsk'', Array PerDSK MAXDSK),
     (''mdd'', Array PerDSK MAXMDD),
     (''lvm'', Array PerDSK MAXLVM)]"

definition PerIntf :: ctype where
  "PerIntf = Structure [
     (''name'', Array c_char 16),
     (''rbyte'', count_t),
     (''rpack'', count_t),
     (''rerrs'', count_t),
     (''rdrop'', count_t),
     (''rfifo'', count_t),
     (''rframe'', count_t),
     (''rcompr'', count_t),
     (''rmultic'', count_t),
     (''rfuture'', Array count_t 4),
     (''sbyte'', count_t),
     (''spack'', count_t),
     (''serrs'', count_t),
     (''sdrop'', count_t),
     (''sfifo'', count_t),
     (''scollis'', count_t),
     (''scarrier'', count_t),
     (''scompr'', count_t),
     (''sfuture'', Array count_t 4),
     (''type'', c_char),
     (''speed'', c_long),
     (''speedp'', c_long),
     (''duplex'', c_char),
     (''cfuture'', Array count_t 4)]"

definition IntfStat :: ctype where
  "IntfStat = Structure [
     (''nrintf'', c_int),
     (''intf'', Array PerIntf MAXINTF)]"

definition PerNFSMount :: ctype where
  "PerNFSMount = Structure [
     (''name'', Array c_char 128),
     (''age'', count_t),
     (''bytesread'', count_t),
     (''byteswrite'', count_t),
     (''bytesdread'', count_t),
     (''bytesdwrite'', count_t),
     (''bytestotread'', count_t),
     (''bytestotwrite'', count_t),
     (''pagesmread'', count_t),
     (''pagesmwrite'', count_t),
     (''future'', Array count_t 8)]"

definition Server :: ctype where
  "Server = Structure [
     (''netcnt'', count_t),
     (''netudpcnt'', count_t),
     (''nettcpcnt'', count_t),
     (''nettcpcon'', count_t),
     (''rpccnt'', count_t),
     (''rpcbadfmt'', count_t),
     (''rpcbadaut'', count_t),
     (''rpcbadcln'', count_t),
     (''rpcread'', count_t),
     (''rpcwrite'', count_t),
     (''rchits'', count_t),
     (''rcmiss'', count_t),
     (''rcnoca'', count_t),
     (''nrbytes'', count_t),
     (''nwbytes'', count_t),
     (''future'', Array count_t 8)]"

definition Client :: ctype where
  "Client = Structure [
     (''rpccnt'', count_t),
     (''rpcretrans'', count_t),
     (''rpcautrefresh'', count_t),
     (''rpcread'', count_t),
     (''rpcwrite'', count_t),
     (''future'', Array count_t 8)]"

definition NFSMounts :: ctype where
  "NFSMounts = Structure [
     (''nrmounts'', c_int),
     (''pernfsmount'', Array PerNFSMount MAXNFSMOUNT)]"

definition NFSStat :: ctype where
  "NFSStat = Structure [
     (''server'', Server),
     (''client'', Client),
     (''nfsmounts'', NFSMounts)]"

definition PerContainer :: ctype where
  "PerContainer = Structure [
     (''ctid'', c_ulong),
     (''numproc'', c_ulong),
     (''system'', count_t),
     (''user'', count_t),
     (''nice'', count_t),
     (''uptime'', count_t),
     (''physpages'', count_t)]"

definition ContStat :: ctype where
  "ContStat = Structure [
     (''nrcontainer'', c_int),
     (''cont'', Array PerContainer MAXCONTAINER)]"

definition WWWStat :: "atop_126 \<Rightarrow> ctype" where
  "WWWStat m = atop_126.WWWStat m"

definition IPv4Stats :: "atop_126 \<Rightarrow> ctype" where
  "IPv4Stats m = atop_126.IPv4Stats m"

definition ICMPv4Stats :: "atop_126 \<Rightarrow> ctype" where
  "ICMPv4Stats m = atop_126.ICMPv4Stats m"

definition UDPv4Stats :: "atop_126 \<Rightarrow> ctype" where
  "UDPv4Stats m = atop_126.UDPv4Stats m"

definition TCPStats :: "atop_126 \<Rightarrow> ctype" where
  "TCPStats m = atop_126.TCPStats m"

definition IPv6Stats :: "atop_126 \<Rightarrow> ctype" where
  "IPv6Stats m = atop_126.IPv6Stats m"

definition ICMPv6Stats :: "atop_126 \<Rightarrow> ctype" where
  "ICMPv6Stats m = atop_126.ICMPv6Stats m"

definition UDPv6Stats :: "atop_126 \<Rightarrow> ctype" where
  "UDPv6Stats m = atop_126.UDPv6Stats m"

definition NETStat :: "atop_126 \<Rightarrow> ctype" where
  "NETStat m = atop_126.NETStat m"

definition SStat :: "atop_126 \<Rightarrow> ctype" where
  "SStat m = Structure [
     (''cpu'', CPUStat m),
     (''mem'', MemStat),
     (''net'', NETStat m),
     (''intf'', IntfStat),
     (''dsk'', DSKStat),
     (''nfs'', NFSStat),
     (''cfs'', ContStat),
     (''www'', WWWStat m)]"

definition GEN :: ctype where
  "GEN = Structure [
     (''tgid'', c_int),
     (''pid'', c_int),
     (''ppid'', c_int),
     (''ruid'', c_int),
     (''euid'', c_int),
     (''suid'', c_int),
     (''fsuid'', c_int),
     (''rgid'', c_int),
     (''egid'', c_int),
     (''sgid'', c_int),
     (''fsgid'', c_int),
     (''nthr'', c_int),
     (''name'', Array c_char (PNAMLEN + 1)),
     (''isproc'', c_char),
     (''state'', c_char),
     (''excode'', c_int),
     (''btime'', time_t),
     (''elaps'', time_t),
     (''cmdline'', Array c_char (CMDLEN + 1)),
     (''nthrslpi'', c_int),
     (''nthrslpu'', c_int),
     (''nthrrun'', c_int),
     (''ctid'', c_int),
     (''vpid'', c_int),
     (''wasinactive'', c_int),
     (''container'', Array c_char 16)]"

definition CPU :: "atop_126 \<Rightarrow> ctype" where
  "CPU m = atop_126.CPU m"

definition DSK :: "atop_126 \<Rightarrow> ctype" where
  "DSK m = atop_126.DSK m"

definition MEM :: ctype where
  "MEM = Structure [
     (''minflt'', count_t),
     (''majflt'', count_t),
     (''vexec'', count_t),
     (''vmem'', count_t),
     (''rmem'', count_t),
     (''pmem'', count_t),
     (''vgrow'', count_t),
     (''rgrow'', count_t),
     (''vdata'', count_t),
     (''vstack'', count_t),
     (''vlibs'', count_t),
     (''vswap'', count_t),
     (''cfuture'', Array count_t 4)]"

definition NET :: ctype where
  "NET = Structure [
     (''tcpsnd'', count_t),
     (''tcpssz'', count_t),
     (''tcprcv'', count_t),
     (''tcprsz'', count_t),
     (''udpsnd'', count_t),
     (''udpssz'', count_t),
     (''udprcv'', count_t),
     (''udprsz'', count_t),
     (''avail1'', count_t),
     (''avail2'', count_t),
     (''cfuture'', Array count_t 4)]"

definition TStat :: "atop_126 \<Rightarrow> ctype" where
  "TStat m = Structure [
     (''gen'', GEN),
     (''cpu'', CPU m),
     (''dsk'', DSK m),
     (''mem'', MEM),
     (''net'', NET)]"

section \<open>Instances of \<^verbatim>\<open>Header\<close> and its methods\<close>

text \<open>
  An instance of the class \<^verbatim>\<open>Header\<close>: one value per field, unsigned fields as words
  of their width, \<^verbatim>\<open>c_int\<close> fields as 32-bit words read in two's complement. The embedded
  \<^verbatim>\<open>utsname\<close> is an instance of a class of the 1.26 module; its type is left open.
\<close>

record 'u Header_obj =
  magic :: "32 word"
  aversion :: "16 word"
  future1 :: "16 word"
  future2 :: "16 word"
  rawheadlen :: "16 word"
  rawreclen :: "16 word"
  hertz :: "16 word"
  sfuture :: "16 word list"
  sstatlen :: "32 word"
  tstatlen :: "32 word"
  utsname :: 'u
  cfuture :: "8 word list"
  pagesize :: "32 word"
  supportflags :: "32 word"
  osrel :: "32 word"
  osvers :: "32 word"
  ossub :: "32 word"
  ifuture :: "32 word list"

datatype error = ValueError string

subsection \<open>Python's string conversions\<close>

text \<open>\<^verbatim>\<open>str\<close> of a \<^verbatim>\<open>bool\<close>, and of a list (the \<^verbatim>\<open>repr\<close> of the elements, separated by
  a comma and a space, in square brackets).\<close>

definition str_bool :: "bool \<Rightarrow> string" where
  "str_bool b = (if b then ''True'' else ''False'')"

fun join_comma :: "string list \<Rightarrow> string" where
  "join_comma [] = []"
| "join_comma [x] = x"
| "join_comma (x # y # ys) = x @ '', '' @ join_comma (y # ys)"

definition str_bool_list :: "bool list \<Rightarrow> string" where
  "str_bool_list bs = ''['' @ join_comma (map str_bool bs) @ '']''"

text \<open>\<^verbatim>\<open>str\<close> of an \<^verbatim>\<open>int\<close>, which is what \<^verbatim>\<open>{major}\<close> in an f-string formats to.\<close>

definition digit_char :: "nat \<Rightarrow> char" where
  "digit_char d = ''0123456789'' ! d"

function str_nat :: "nat \<Rightarrow> string" where
  "str_nat n = (if n < 10 then [digit_char n] else str_nat (n div 10) @ [digit_char (n mod 10)])"
  by pat_completeness auto
termination
  by (relation "measure (\<lambda>n. n)") auto

declare str_nat.simps [simp del]

definition str_int :: "int \<Rightarrow> string" where
  "str_int i = (if i < 0 then CHR ''-'' # str_nat (nat (- i)) else str_nat (nat i))"

text \<open>
  A Python \<^verbatim>\<open>float\<close> is an IEEE 754 binary64 value. The ones that occur here are not
  negative, so a value is the rational number it stands for, or infinity.
\<close>

datatype py_float = Finite rat | Infinity

text \<open>
  Rounding a non-negative rational to the nearest binary64 value, ties to the even
  significand, as the conversion of a decimal string by \<^verbatim>\<open>float\<close> does (it is correctly
  rounded). With \<open>2 ^ e \<le> x < 2 ^ (e + 1)\<close>, the values around \<open>x\<close> are the multiples of
  \<open>2 ^ (e - 52)\<close>; below \<open>2 ^ (- 1022)\<close> (subnormal values) the spacing stays
  \<open>2 ^ (- 1074)\<close>; a result of \<open>2 ^ 1024\<close> or more is infinity.
\<close>

function floor_log2 :: "nat \<Rightarrow> nat" where
  "floor_log2 n = (if n < 2 then 0 else Suc (floor_log2 (n div 2)))"
  by pat_completeness auto
termination
  by (relation "measure (\<lambda>n. n)") auto

declare floor_log2.simps [simp del]

definition ceil_log2 :: "nat \<Rightarrow> nat" where
  "ceil_log2 n = (if n \<le> 1 then 0 else Suc (floor_log2 (n - 1)))"

definition pow2 :: "int \<Rightarrow> rat" where
  "pow2 k = (if 0 \<le> k then 2 ^ nat k else 1 / 2 ^ nat (- k))"

definition binary_exponent :: "rat \<Rightarrow> int" where
  "binary_exponent x =
     (if 1 \<le> x then int (floor_log2 (nat \<lfloor>x\<rfloor>))
      else - int (ceil_log2 (nat \<lceil>1 / x\<rceil>)))"

definition round_half_even :: "rat \<Rightarrow> int" where
  "round_half_even q =
     (let f = \<lfloor>q\<rfloor>; r = q - of_int f
      in if r < 1 / 2 then f
         else if 1 / 2 < r then f + 1
         else if even f then f else f + 1)"

definition binary64 :: "rat \<Rightarrow> py_float" where
  "binary64 x =
     (if x = 0 then Finite 0
      else let e = max (binary_exponent x) (- 1022);
               ulp = pow2 (e - 52);
               v = of_int (round_half_even (x / ulp)) * ulp
           in if pow2 1024 \<le> v then Infinity else Finite v)"

text \<open>
  \<^verbatim>\<open>float(s)\<close> on the strings of the form \<^verbatim>\<open>digits\<close> or \<^verbatim>\<open>digits.digits\<close> (one of the
  two digit runs may be empty when the point is there): the binary64 value nearest to
  the number the decimal numeral denotes. On a string outside this form the model answers
  \<open>None\<close>, where Python raises \<^verbatim>\<open>ValueError\<close> (or accepts a form, such as a sign or an
  exponent, that the strings built by \<^verbatim>\<open>get_version\<close> never have).
\<close>

definition is_digit :: "char \<Rightarrow> bool" where
  "is_digit c = (c \<in> set ''0123456789'')"

definition digit_val :: "char \<Rightarrow> nat" where
  "digit_val c = of_char c - 48"

definition digits_val :: "string \<Rightarrow> nat" where
  "digits_val s = foldl (\<lambda>a c. 10 * a + digit_val c) 0 s"

definition float_of_str :: "string \<Rightarrow> py_float option" where
  "float_of_str s =
    (let ip = takeWhile (\<lambda>c. c \<noteq> CHR ''.'') s;
         rest = dropWhile (\<lambda>c. c \<noteq> CHR ''.'') s
     in case rest of
          [] \<Rightarrow> if ip \<noteq> [] \<and> list_all is_digit ip
                then Some (binary64 (of_nat (digits_val ip))) else None
        | _ # fp \<Rightarrow>
            if (ip \<noteq> [] \<or> fp \<noteq> []) \<and> list_all is_digit ip \<and> list_all is_digit fp
            then Some (binary64
                   (of_nat (digits_val ip) + of_nat (digits_val fp) / 10 ^ length fp))
            else None)"

subsection \<open>The methods\<close>

text \<open>
  Both methods receive \<^verbatim>\<open>self\<close>, a mutable ctypes object, so each is modelled as a function
  from the object to its outcome and the object as the method leaves it. An outcome is
  \<open>Inl\<close> of the exception raised or \<open>Inr\<close> of the value returned. A field of unsigned
  type reads as a non-negative Python integer.
\<close>

definition check_compatibility ::
  "atop_126 \<Rightarrow> 'u Header_obj \<Rightarrow> (error + unit) \<times> 'u Header_obj" where
  "check_compatibility m self =
    (let compatible = [
           unat (sstatlen self) = sizeof (SStat m),
           unat (tstatlen self) = sizeof (TStat m),
           unat (rawheadlen self) = sizeof (Header m),
           unat (rawreclen self) = sizeof Record]
     in if \<not> list_all (\<lambda>b. b) compatible
        then (Inl (ValueError
                (''File has incompatible atop format. Struct length evaluations: ''
                 @ str_bool_list compatible)), self)
        else (Inr (), self))"

definition get_version :: "'u Header_obj \<Rightarrow> (error + py_float) \<times> 'u Header_obj" where
  "get_version self =
    (let major = (drop_bit 8 (uint (aversion self))) AND 0x7f;
         minor = uint (aversion self) AND 0xff
     in case float_of_str (str_int major @ ''.'' @ str_int minor) of
          None \<Rightarrow> (Inl (ValueError ''could not convert string to float''), self)
        | Some version \<Rightarrow> (Inr version, self))"

section \<open>A module of atop 1.26 to evaluate on\<close>

text \<open>
  An instance of the parameter, for evaluating the definitions at a concrete point: the
  six names of \<^verbatim>\<open>utsname\<close> as 65-byte strings, three counters for \<^verbatim>\<open>FreqCnt\<close>, and short
  counter records for the rest. The theorems below hold for every module \<open>m\<close>; nothing
  in them depends on this choice.
\<close>

definition sample_126 :: atop_126 where
  "sample_126 = \<lparr>
     atop_126.UTSName = Structure [
       (''sysname'', Array c_char 65), (''nodename'', Array c_char 65),
       (''release'', Array c_char 65), (''version'', Array c_char 65),
       (''machine'', Array c_char 65), (''domain'', Array c_char 65)],
     atop_126.FreqCnt = Structure [
       (''maxfreq'', c_longlong), (''cnt'', c_longlong), (''ticks'', c_longlong)],
     atop_126.WWWStat = Structure [
       (''accesses'', c_longlong), (''totkbytes'', c_longlong), (''uptime'', c_longlong),
       (''bworkers'', c_int), (''iworkers'', c_int)],
     atop_126.IPv4Stats = Structure [(''Forwarding'', c_longlong), (''InReceives'', c_longlong)],
     atop_126.ICMPv4Stats = Structure [(''InMsgs'', c_longlong), (''OutMsgs'', c_longlong)],
     atop_126.UDPv4Stats = Structure [(''InDatagrams'', c_longlong), (''OutDatagrams'', c_longlong)],
     atop_126.TCPStats = Structure [(''ActiveOpens'', c_longlong), (''PassiveOpens'', c_longlong)],
     atop_126.IPv6Stats = Structure [(''Ip6InReceives'', c_longlong), (''Ip6OutRequests'', c_longlong)],
     atop_126.ICMPv6Stats = Structure [(''Icmp6InMsgs'', c_longlong), (''Icmp6OutMsgs'', c_longlong)],
     atop_126.UDPv6Stats = Structure [(''Udp6InDatagrams'', c_longlong), (''Udp6OutDatagrams'', c_longlong)],
     atop_126.NETStat = Structure [
       (''ipv4'', Structure [(''Forwarding'', c_longlong), (''InReceives'', c_longlong)]),
       (''tcp'', Structure [(''ActiveOpens'', c_longlong), (''PassiveOpens'', c_longlong)])],
     atop_126.CPU = Structure [
       (''utime'', c_longlong), (''stime'', c_longlong), (''nice'', c_int),
       (''prio'', c_int), (''rtprio'', c_int), (''policy'', c_int),
       (''curcpu'', c_int), (''sleepavg'', c_int)],
     atop_126.DSK = Structure [
       (''rio'', c_longlong), (''rsz'', c_longlong), (''wio'', c_longlong),
       (''wsz'', c_longlong), (''cwsz'', c_longlong)] \<rparr>"

definition sample_header :: "unit Header_obj" where
  "sample_header = \<lparr>
     magic = 0xfeedbeef, aversion = 0x8203, future1 = 0, future2 = 0,
     rawheadlen = 480, rawreclen = 96, hertz = 100, sfuture = [0, 0, 0, 0, 0, 0],
     sstatlen = 0, tstatlen = 0, utsname = (), cfuture = [0, 0, 0, 0, 0, 0, 0, 0],
     pagesize = 4096, supportflags = 0, osrel = 3, osvers = 10, ossub = 0,
     ifuture = [0, 0, 0, 0, 0, 0] \<rparr>"

section \<open>Sizes of the layouts\<close>

lemma round_up_ge: "off \<le> round_up off a"
  by (simp add: round_up_def)

lemma end_offset_ge:
  "off + sum_list (map (\<lambda>f. sizeof (snd f)) fs) \<le> end_offset fs off"
proof (induction fs arbitrary: off)
  case Nil
  show ?case by simp
next
  case (Cons f fs)
  have "off + sizeof (snd f) \<le> round_up off (alignment (snd f)) + sizeof (snd f)"
    using round_up_ge [of off "alignment (snd f)"] by simp
  moreover have "round_up off (alignment (snd f)) + sizeof (snd f)
      + sum_list (map (\<lambda>f. sizeof (snd f)) fs)
      \<le> end_offset fs (round_up off (alignment (snd f)) + sizeof (snd f))"
    by (rule Cons.IH)
  ultimately show ?case by simp
qed

lemma end_offset_append: "end_offset (xs @ ys) off = end_offset ys (end_offset xs off)"
  by (induction xs arbitrary: off) simp_all

lemma sizeof_ge_padded_prefix:
  "end_offset (take k fs) 0 + sum_list (map (\<lambda>f. sizeof (snd f)) (drop k fs))
     \<le> sizeof (Structure fs)"
proof -
  have "end_offset fs 0 = end_offset (drop k fs) (end_offset (take k fs) 0)"
    using end_offset_append [of "take k fs" "drop k fs" 0] by simp
  then have "end_offset (take k fs) 0 + sum_list (map (\<lambda>f. sizeof (snd f)) (drop k fs))
      \<le> end_offset fs 0"
    using end_offset_ge [of "end_offset (take k fs) 0" "drop k fs"] by simp
  also have "\<dots> \<le> round_up (end_offset fs 0) (total_align fs 1)"
    by (rule round_up_ge)
  finally show ?thesis by simp
qed

lemma sizeof_ge_field_widths: "field_widths (Structure fs) \<le> sizeof (Structure fs)"
  using sizeof_ge_padded_prefix [of 0 fs] by (simp add: field_widths_def)

lemmas scalar_defs = time_t_def count_t_def off_t_def PNAMLEN_def CMDLEN_def
  MAXCPU_def MAXDSK_def MAXLVM_def MAXMDD_def MAXINTF_def MAXCONTAINER_def
  MAXNFSMOUNT_def MAXDKNAM_def

lemma sizeof_Record: "sizeof Record = 96" "field_widths Record = 92"
  by (simp_all add: Record_def scalar_defs round_up_def field_widths_def)

lemma sizeof_MemStat: "sizeof MemStat = 248" "field_widths MemStat = 248"
  by (simp_all add: MemStat_def scalar_defs round_up_def field_widths_def)

lemma sizeof_PerDSK: "sizeof PerDSK = 112" "field_widths PerDSK = 112" "alignment PerDSK = 8"
  by (simp_all add: PerDSK_def scalar_defs round_up_def field_widths_def)

lemma sizeof_DSKStat: "sizeof DSKStat = 372752" "field_widths DSKStat = 372748"
  by (simp_all add: DSKStat_def sizeof_PerDSK scalar_defs round_up_def field_widths_def)

lemma sizeof_PerIntf: "sizeof PerIntf = 272" "field_widths PerIntf = 258" "alignment PerIntf = 8"
  by (simp_all add: PerIntf_def scalar_defs round_up_def field_widths_def)

lemma sizeof_IntfStat: "sizeof IntfStat = 34824" "field_widths IntfStat = 34820"
  by (simp_all add: IntfStat_def sizeof_PerIntf scalar_defs round_up_def field_widths_def)

lemma sizeof_PerNFSMount:
  "sizeof PerNFSMount = 264" "field_widths PerNFSMount = 264" "alignment PerNFSMount = 8"
  by (simp_all add: PerNFSMount_def scalar_defs round_up_def field_widths_def)

lemma sizeof_Server: "sizeof Server = 184" "field_widths Server = 184" "alignment Server = 8"
  by (simp_all add: Server_def scalar_defs round_up_def field_widths_def)

lemma sizeof_Client: "sizeof Client = 104" "field_widths Client = 104" "alignment Client = 8"
  by (simp_all add: Client_def scalar_defs round_up_def field_widths_def)

lemma sizeof_NFSMounts:
  "sizeof NFSMounts = 16904" "field_widths NFSMounts = 16900" "alignment NFSMounts = 8"
  by (simp_all add: NFSMounts_def sizeof_PerNFSMount scalar_defs round_up_def field_widths_def)

lemma sizeof_NFSStat: "sizeof NFSStat = 17192" "field_widths NFSStat = 17192"
  by (simp_all add: NFSStat_def sizeof_Server sizeof_Client sizeof_NFSMounts
      round_up_def field_widths_def)

lemma sizeof_PerContainer:
  "sizeof PerContainer = 56" "field_widths PerContainer = 56" "alignment PerContainer = 8"
  by (simp_all add: PerContainer_def scalar_defs round_up_def field_widths_def)

lemma sizeof_ContStat: "sizeof ContStat = 7176" "field_widths ContStat = 7172"
  by (simp_all add: ContStat_def sizeof_PerContainer scalar_defs round_up_def field_widths_def)

lemma sizeof_GEN: "sizeof GEN = 384" "field_widths GEN = 382"
  by (simp_all add: GEN_def scalar_defs round_up_def field_widths_def)

lemma sizeof_MEM: "sizeof MEM = 128" "field_widths MEM = 128"
  by (simp_all add: MEM_def scalar_defs round_up_def field_widths_def)

lemma sizeof_NET: "sizeof NET = 112" "field_widths NET = 112"
  by (simp_all add: NET_def scalar_defs round_up_def field_widths_def)

lemma sizeof_PerCPU_ge: "field_widths (PerCPU m) + 4 \<le> sizeof (PerCPU m)"
proof -
  let ?fs = "struct_fields (PerCPU m)"
  have s: "Structure ?fs = PerCPU m"
    by (simp add: PerCPU_def)
  have a: "end_offset (take 2 ?fs) 0 = 16"
    by (simp add: PerCPU_def scalar_defs round_up_def)
  have b: "field_widths (PerCPU m) = 12 + sum_list (map (\<lambda>f. sizeof (snd f)) (drop 2 ?fs))"
    by (simp add: PerCPU_def scalar_defs field_widths_def)
  show ?thesis
    using sizeof_ge_padded_prefix [of 2 ?fs] unfolding s a b by linarith
qed

lemma sizeof_CPUStat_ge: "field_widths (CPUStat m) + 4 \<le> sizeof (CPUStat m)"
proof -
  let ?fs = "struct_fields (CPUStat m)"
  have s: "Structure ?fs = CPUStat m"
    by (simp add: CPUStat_def)
  have a: "end_offset (take 8 ?fs) 0 = 80"
    by (simp add: CPUStat_def scalar_defs round_up_def)
  have b: "field_widths (CPUStat m) = 76 + sum_list (map (\<lambda>f. sizeof (snd f)) (drop 8 ?fs))"
    by (simp add: CPUStat_def scalar_defs field_widths_def)
  show ?thesis
    using sizeof_ge_padded_prefix [of 8 ?fs] unfolding s a b by linarith
qed

lemma sizeof_Header_ge: "field_widths (Header m) \<le> sizeof (Header m)"
  unfolding Header_def by (rule sizeof_ge_field_widths)

lemma sizeof_SStat_ge: "field_widths (SStat m) \<le> sizeof (SStat m)"
  unfolding SStat_def by (rule sizeof_ge_field_widths)

lemma sizeof_TStat_ge: "field_widths (TStat m) \<le> sizeof (TStat m)"
  unfolding TStat_def by (rule sizeof_ge_field_widths)

section \<open>Claims about the sizes of the layouts\<close>

text \<open>
  C3, as stated: the size of every declared layout is the sum of the widths of its fields.
  It fails for \<^verbatim>\<open>GEN\<close>: the two bytes \<^verbatim>\<open>isproc\<close> and \<^verbatim>\<open>state\<close> end at offset 66 and the
  \<^verbatim>\<open>c_int\<close> field \<^verbatim>\<open>excode\<close> that follows starts at 68, so the size is 384 and the sum of
  the widths 382.
\<close>

theorem sizeof_field_widths_counterexample: "sizeof GEN \<noteq> field_widths GEN"
  by (simp add: sizeof_GEN)

text \<open>
  C3, amended: for every layout the 2.30 module declares, \<^verbatim>\<open>ctypes.sizeof\<close> is the size
  under native alignment. It is never less than the sum of the widths of the fields; it
  is equal to it for \<^verbatim>\<open>MemStat\<close>, \<^verbatim>\<open>PerDSK\<close>, \<^verbatim>\<open>PerNFSMount\<close>, \<^verbatim>\<open>Server\<close>, \<^verbatim>\<open>Client\<close>,
  \<^verbatim>\<open>NFSStat\<close>, \<^verbatim>\<open>PerContainer\<close>, \<^verbatim>\<open>MEM\<close> and \<^verbatim>\<open>NET\<close>, and larger by the padding written
  below for the others (for the layouts that embed a class of the 1.26 module, at least
  that much larger, whatever that class is).
\<close>

theorem sizeof_declared_layouts:
  "field_widths (Header m) \<le> sizeof (Header m)
   \<and> sizeof Record = field_widths Record + 4
   \<and> sizeof MemStat = field_widths MemStat
   \<and> field_widths (PerCPU m) + 4 \<le> sizeof (PerCPU m)
   \<and> field_widths (CPUStat m) + 4 \<le> sizeof (CPUStat m)
   \<and> sizeof PerDSK = field_widths PerDSK
   \<and> sizeof DSKStat = field_widths DSKStat + 4
   \<and> sizeof PerIntf = field_widths PerIntf + 14
   \<and> sizeof IntfStat = field_widths IntfStat + 4
   \<and> sizeof PerNFSMount = field_widths PerNFSMount
   \<and> sizeof Server = field_widths Server
   \<and> sizeof Client = field_widths Client
   \<and> sizeof NFSMounts = field_widths NFSMounts + 4
   \<and> sizeof NFSStat = field_widths NFSStat
   \<and> sizeof PerContainer = field_widths PerContainer
   \<and> sizeof ContStat = field_widths ContStat + 4
   \<and> field_widths (SStat m) \<le> sizeof (SStat m)
   \<and> sizeof GEN = field_widths GEN + 2
   \<and> sizeof MEM = field_widths MEM
   \<and> sizeof NET = field_widths NET
   \<and> field_widths (TStat m) \<le> sizeof (TStat m)"
  by (simp only: sizeof_Header_ge sizeof_Record sizeof_MemStat sizeof_PerCPU_ge
      sizeof_CPUStat_ge sizeof_PerDSK sizeof_DSKStat sizeof_PerIntf sizeof_IntfStat
      sizeof_PerNFSMount sizeof_Server sizeof_Client sizeof_NFSMounts sizeof_NFSStat
      sizeof_PerContainer sizeof_ContStat sizeof_SStat_ge sizeof_GEN sizeof_MEM sizeof_NET
      sizeof_TStat_ge) simp

section \<open>Sizes under the sample module\<close>

lemma sizeof_sample_Header: "sizeof (Header sample_126) = 480"
  by (simp add: Header_def UTSName_def sample_126_def round_up_def)

lemma sizeof_sample_PerCPU: "sizeof (PerCPU sample_126) = 136" "alignment (PerCPU sample_126) = 8"
  by (simp_all add: PerCPU_def FreqCnt_def sample_126_def scalar_defs round_up_def)

lemma sizeof_sample_CPUStat: "sizeof (CPUStat sample_126) = 278744" "alignment (CPUStat sample_126) = 8"
  by (simp_all add: CPUStat_def sizeof_sample_PerCPU scalar_defs round_up_def)

lemma sizeof_sample_NETStat: "sizeof (NETStat sample_126) = 32" "alignment (NETStat sample_126) = 8"
  by (simp_all add: NETStat_def sample_126_def round_up_def)

lemma sizeof_sample_WWWStat: "sizeof (WWWStat sample_126) = 32" "alignment (WWWStat sample_126) = 8"
  by (simp_all add: WWWStat_def sample_126_def round_up_def)

lemma alignment_sub_records: "alignment MemStat = 8" "alignment IntfStat = 8" "alignment DSKStat = 8"
  "alignment NFSStat = 8" "alignment ContStat = 8"
  by (simp_all add: MemStat_def IntfStat_def DSKStat_def NFSStat_def ContStat_def
      sizeof_PerIntf sizeof_PerDSK sizeof_Server sizeof_Client sizeof_NFSMounts
      sizeof_PerContainer scalar_defs)

lemma sizeof_sample_SStat: "sizeof (SStat sample_126) = 711000"
  by (simp add: SStat_def sizeof_sample_CPUStat sizeof_MemStat sizeof_sample_NETStat
      sizeof_IntfStat sizeof_DSKStat sizeof_NFSStat sizeof_ContStat sizeof_sample_WWWStat
      alignment_sub_records round_up_def)

lemma sizeof_sample_TStat: "sizeof (TStat sample_126) = 704"
  by (simp add: TStat_def GEN_def MEM_def NET_def CPU_def DSK_def sample_126_def
      scalar_defs round_up_def)

section \<open>Claims about \<^verbatim>\<open>check_compatibility\<close>\<close>

lemma str_bool_list4_inject:
  "(str_bool_list [a, b, c, d] = str_bool_list [a', b', c', d'])
     = (a = a' \<and> b = b' \<and> c = c' \<and> d = d')"
  by (cases a; cases b; cases c; cases d; cases a'; cases b'; cases c'; cases d';
      simp add: str_bool_list_def str_bool_def)

text \<open>
  C2: \<^verbatim>\<open>check_compatibility\<close> returns normally when
  \<^verbatim>\<open>sstatlen = sizeof(SStat)\<close>, \<^verbatim>\<open>tstatlen = sizeof(TStat)\<close>, \<^verbatim>\<open>rawheadlen = sizeof(Header)\<close>
  and \<^verbatim>\<open>rawreclen = sizeof(Record)\<close> all hold, and raises otherwise. The exception is a
  \<^verbatim>\<open>ValueError\<close> whose message ends with the list of the four comparisons, in this order;
  two such lists with the same text are the same list, so the message tells which of the
  four fields mismatched.
\<close>

theorem check_compatibility_raises_iff:
  "fst (check_compatibility m h) =
     (if unat (sstatlen h) = sizeof (SStat m) \<and> unat (tstatlen h) = sizeof (TStat m)
         \<and> unat (rawheadlen h) = sizeof (Header m) \<and> unat (rawreclen h) = sizeof Record
      then Inr ()
      else Inl (ValueError
             (''File has incompatible atop format. Struct length evaluations: ''
              @ str_bool_list [unat (sstatlen h) = sizeof (SStat m),
                               unat (tstatlen h) = sizeof (TStat m),
                               unat (rawheadlen h) = sizeof (Header m),
                               unat (rawreclen h) = sizeof Record])))
   \<and> ((str_bool_list [a, b, c, d] = str_bool_list [a', b', c', d'])
        = (a = a' \<and> b = b' \<and> c = c' \<and> d = d'))"
  by (simp add: check_compatibility_def Let_def str_bool_list4_inject)

theorem check_compatibility_raises_iff_witness:
  "fst (check_compatibility sample_126 sample_header) =
     Inl (ValueError
       ''File has incompatible atop format. Struct length evaluations: [False, False, True, True]'')
   \<and> fst (check_compatibility sample_126
            (sample_header\<lparr>sstatlen := 711000, tstatlen := 704\<rparr>)) = Inr ()"
  using check_compatibility_raises_iff [of sample_126 sample_header]
    check_compatibility_raises_iff [of sample_126
      "sample_header\<lparr>sstatlen := 711000, tstatlen := 704\<rparr>"]
  by (simp add: sample_header_def sizeof_sample_SStat sizeof_sample_TStat
      sizeof_sample_Header sizeof_Record str_bool_list_def str_bool_def)

text \<open>
  C9: \<^verbatim>\<open>check_compatibility\<close> and \<^verbatim>\<open>get_version\<close> leave every field of the header as it
  was, whether they return or raise.
\<close>

theorem methods_leave_header_unchanged:
  "snd (check_compatibility m h) = h \<and> snd (get_version h) = h"
  by (simp add: check_compatibility_def get_version_def Let_def split: option.split)

text \<open>
  C10: two headers with the same \<^verbatim>\<open>sstatlen\<close>, \<^verbatim>\<open>tstatlen\<close>, \<^verbatim>\<open>rawheadlen\<close> and
  \<^verbatim>\<open>rawreclen\<close> are both accepted or both rejected by \<^verbatim>\<open>check_compatibility\<close> (and a
  rejection carries the same message), whatever their other fields hold.
\<close>

theorem check_compatibility_depends_on_lengths_only:
  "sstatlen h1 = sstatlen h2 \<Longrightarrow> tstatlen h1 = tstatlen h2 \<Longrightarrow>
   rawheadlen h1 = rawheadlen h2 \<Longrightarrow> rawreclen h1 = rawreclen h2 \<Longrightarrow>
   (isl (fst (check_compatibility m h1)) \<longleftrightarrow> isl (fst (check_compatibility m h2)))
   \<and> fst (check_compatibility m h1) = fst (check_compatibility m h2)"
  by (simp add: check_compatibility_def Let_def)

theorem methods_leave_header_unchanged_witness:
  "snd (check_compatibility sample_126 sample_header) = sample_header
   \<and> isl (fst (check_compatibility sample_126 sample_header))
   \<and> snd (get_version sample_header) = sample_header"
  using methods_leave_header_unchanged [of sample_126 sample_header]
  by (simp add: check_compatibility_def Let_def sample_header_def sizeof_sample_SStat)

theorem check_compatibility_depends_on_lengths_only_witness:
  "fst (check_compatibility sample_126
          (sample_header\<lparr>magic := 0, aversion := 0x105, hertz := 250, pagesize := 0\<rparr>))
   = fst (check_compatibility sample_126 sample_header)"
  using check_compatibility_depends_on_lengths_only
    [of "sample_header\<lparr>magic := 0, aversion := 0x105, hertz := 250, pagesize := 0\<rparr>"
        sample_header sample_126]
  by simp

section \<open>The value of \<^verbatim>\<open>get_version\<close>\<close>

lemma digit_char_is_digit: "d < 10 \<Longrightarrow> is_digit (digit_char d)"
proof -
  assume "d < 10"
  then have "d \<in> {0, 1, 2, 3, 4, 5, 6, 7, 8, 9}" by auto
  then show ?thesis by (auto simp: is_digit_def digit_char_def)
qed

lemma digit_val_digit_char: "d < 10 \<Longrightarrow> digit_val (digit_char d) = d"
proof -
  assume "d < 10"
  then have "d \<in> {0, 1, 2, 3, 4, 5, 6, 7, 8, 9}" by auto
  then show ?thesis by (auto simp: digit_val_def digit_char_def)
qed

lemma str_nat_digits: "list_all is_digit (str_nat n)"
proof (induction n rule: str_nat.induct)
  case (1 n)
  show ?case
  proof (cases "n < 10")
    case True
    then show ?thesis by (subst str_nat.simps) (simp add: digit_char_is_digit)
  next
    case False
    then have "list_all is_digit (str_nat (n div 10))" by (rule "1.IH")
    with False show ?thesis
      by (subst str_nat.simps) (simp add: digit_char_is_digit)
  qed
qed

lemma digits_val_snoc: "digits_val (s @ [c]) = 10 * digits_val s + digit_val c"
  by (simp add: digits_val_def)

lemma digits_val_str_nat: "digits_val (str_nat n) = n"
proof (induction n rule: str_nat.induct)
  case (1 n)
  show ?case
  proof (cases "n < 10")
    case True
    then show ?thesis
      by (subst str_nat.simps) (simp add: digits_val_def digit_val_digit_char)
  next
    case False
    then have "digits_val (str_nat (n div 10)) = n div 10" by (rule "1.IH")
    with False show ?thesis
      by (subst str_nat.simps) (simp add: digits_val_snoc digit_val_digit_char)
  qed
qed

lemma str_nat_not_Nil: "str_nat n \<noteq> []"
  by (subst str_nat.simps) simp

lemma length_str_nat:
  "length (str_nat n) = (if n < 10 then 1 else Suc (length (str_nat (n div 10))))"
  by (subst str_nat.simps) simp

lemma is_digit_not_point: "is_digit c \<Longrightarrow> c \<noteq> CHR ''.''"
  by (auto simp: is_digit_def)

lemma float_of_str_decimal:
  assumes "list_all is_digit a" and "list_all is_digit b" and "a \<noteq> []"
  shows "float_of_str (a @ ''.'' @ b)
     = Some (binary64 (of_nat (digits_val a) + of_nat (digits_val b) / 10 ^ length b))"
proof -
  have nodot: "\<forall>c\<in>set a. c \<noteq> CHR ''.''"
    using assms(1) by (auto simp: list_all_iff dest: is_digit_not_point)
  have t: "takeWhile (\<lambda>c. c \<noteq> CHR ''.'') (a @ CHR ''.'' # b) = a"
    using nodot by (simp add: takeWhile_append2)
  have d: "dropWhile (\<lambda>c. c \<noteq> CHR ''.'') (a @ CHR ''.'' # b) = CHR ''.'' # b"
    using nodot by (simp add: dropWhile_append2)
  show ?thesis
    using assms by (simp add: float_of_str_def t d)
qed



lemma version_parts:
  fixes w :: "16 word"
  shows "0 \<le> (drop_bit 8 (uint w)) AND (0x7f::int)" "0 \<le> uint w AND (0xff::int)"
    "uint w AND (0xff::int) < 256"  "(drop_bit 8 (uint w)) AND (0x7f::int) < 128"
  by (simp_all add: AND_upper2'')

lemma length_str_nat_lt_1000:
  "n < 1000 \<Longrightarrow> length (str_nat n) = (if n < 10 then 1 else if n < 100 then 2 else 3)"
  using length_str_nat [of n] length_str_nat [of "n div 10"]
    length_str_nat [of "n div 10 div 10"]
  by (simp split: if_splits) arith+


lemma str_int_nonneg: "0 \<le> i \<Longrightarrow> str_int i = str_nat (nat i)"
  by (simp add: str_int_def)

lemma mask_numerals:
  "(0x7f::int) = mask 7" "(0xff::int) = mask 8"
  "(0x7f::16 word) = mask 7" "(0xff::16 word) = mask 8"
  by (simp_all add: mask_eq_exp_minus_1)

lemma unpack_major:
  fixes M N :: "16 word"
  shows "drop_bit 8 (uint (push_bit 8 (M AND 0x7f) OR (N AND 0xff))) AND 0x7f = uint (M AND 0x7f)"
  unfolding mask_numerals
  by (rule bit_eqI) (auto simp add: bit_simps)

lemma unpack_minor:
  fixes M N :: "16 word"
  shows "uint (push_bit 8 (M AND 0x7f) OR (N AND 0xff)) AND 0xff = uint (N AND 0xff)"
  unfolding mask_numerals
  by (rule bit_eqI) (auto simp add: bit_simps)

lemma bit_msb: "bit (0x8000::int) n \<longleftrightarrow> n = 15"
proof -
  have "(0x8000::int) = push_bit 15 1" by simp
  then show ?thesis by (simp only: bit_simps) auto
qed

lemma msb_major:
  fixes w :: "16 word"
  shows "drop_bit 8 (uint (w OR 0x8000)) AND 0x7f = drop_bit 8 (uint w) AND 0x7f"
  unfolding mask_numerals
  by (rule bit_eqI) (auto simp add: bit_simps bit_msb)

lemma msb_minor:
  fixes w :: "16 word"
  shows "uint (w OR 0x8000) AND 0xff = uint w AND 0xff"
  unfolding mask_numerals
  by (rule bit_eqI) (auto simp add: bit_simps bit_msb)

lemma get_version_value:
  "fst (get_version h) =
     Inr (binary64 (of_int (drop_bit 8 (uint (aversion h)) AND 0x7f)
          + of_int (uint (aversion h) AND 0xff)
            / 10 ^ length (str_nat (nat (uint (aversion h) AND 0xff)))))"
proof -
  define major :: int where "major = drop_bit 8 (uint (aversion h)) AND 0x7f"
  define minor :: int where "minor = uint (aversion h) AND 0xff"
  have M: "0 \<le> major" and N: "0 \<le> minor"
    unfolding major_def minor_def by (rule version_parts)+
  have s: "str_int major @ ''.'' @ str_int minor
      = str_nat (nat major) @ ''.'' @ str_nat (nat minor)"
    using M N by (simp add: str_int_nonneg)
  have f: "float_of_str (str_int major @ ''.'' @ str_int minor)
      = Some (binary64 (of_int major + of_int minor / 10 ^ length (str_nat (nat minor))))"
    unfolding s
    using float_of_str_decimal [OF str_nat_digits str_nat_digits str_nat_not_Nil,
        of "nat major" "nat minor"] M N
    by (simp only: digits_val_str_nat of_nat_nat)
  show ?thesis
    using f unfolding get_version_def major_def minor_def by (simp add: Let_def)
qed

lemma binary64_examples:
  "binary64 (23 / 10) = Finite (2589569785738035 / 1125899906842624)"
  "binary64 (203 / 100) = Finite (4571153621781053 / 2251799813685248)"
  by code_simp+

lemma floor_log2_le: "n < 2 ^ Suc k \<Longrightarrow> floor_log2 n \<le> k"
proof (induction k arbitrary: n)
  case 0
  then show ?case by (subst floor_log2.simps) simp
next
  case (Suc k)
  show ?case
  proof (cases "n < 2")
    case True
    then show ?thesis by (subst floor_log2.simps) simp
  next
    case False
    have "n div 2 < 2 ^ Suc k"
      using Suc.prems by simp
    then have "floor_log2 (n div 2) \<le> k"
      by (rule Suc.IH)
    with False show ?thesis by (subst floor_log2.simps) simp
  qed
qed

lemma binary_exponent_le:
  assumes "x < 512"
  shows "binary_exponent x \<le> 8"
proof (cases "1 \<le> x")
  case True
  have "\<lfloor>x\<rfloor> < 512"
    using assms by (simp add: floor_less_iff)
  then have "nat \<lfloor>x\<rfloor> < 512"
    by linarith
  then have "nat \<lfloor>x\<rfloor> < 2 ^ Suc 8"
    by simp
  then have "floor_log2 (nat \<lfloor>x\<rfloor>) \<le> 8"
    by (rule floor_log2_le)
  with True show ?thesis by (simp add: binary_exponent_def)
next
  case False
  then show ?thesis by (simp add: binary_exponent_def)
qed

lemma pow2_bounds: "0 < pow2 k" "k \<le> 0 \<Longrightarrow> pow2 k \<le> 1"
  by (simp_all add: pow2_def divide_le_eq_1)

lemma round_half_even_le: "of_int (round_half_even q) \<le> q + 1"
proof -
  have "of_int \<lfloor>q\<rfloor> \<le> q + 1"
    using of_int_floor_le [of q] by linarith
  then show ?thesis
    by (simp add: round_half_even_def Let_def)
qed

lemma binary64_finite:
  assumes "0 \<le> x" and "x < 512"
  shows "\<exists>r. binary64 x = Finite r"
proof (cases "x = 0")
  case True
  then show ?thesis by (simp add: binary64_def)
next
  case False
  define ulp where "ulp = pow2 (max (binary_exponent x) (- 1022) - 52)"
  define v where "v = of_int (round_half_even (x / ulp)) * ulp"
  have e: "max (binary_exponent x) (- 1022) - 52 \<le> 0"
    using binary_exponent_le [OF assms(2)] by simp
  have ulp: "0 < ulp" "ulp \<le> 1"
    unfolding ulp_def using e by (simp_all add: pow2_bounds)
  have "v \<le> (x / ulp + 1) * ulp"
    unfolding v_def using round_half_even_le [of "x / ulp"] ulp(1)
    by (simp add: mult_right_mono)
  also have "\<dots> = x + ulp"
    using ulp(1) by (simp add: field_simps)
  also have "\<dots> < 513"
    using assms(2) ulp(2) by simp
  also have "\<dots> \<le> pow2 1024"
    by (simp add: pow2_def)
  finally have "\<not> pow2 1024 \<le> v"
    by simp
  then have "binary64 x = Finite v"
    using False by (simp add: binary64_def Let_def ulp_def v_def)
  then show ?thesis ..
qed

text \<open>
  C1, as stated: the version is \<open>major + minor / 100\<close> for every 16-bit \<^verbatim>\<open>aversion\<close>.
  For \<^verbatim>\<open>aversion = 0x0203\<close> the method extracts major 2 and minor 3, formats them as
  \<^verbatim>\<open>'2.3'\<close> and returns the float 2.3, which is neither the number 2.03 nor the float
  nearest to it.
\<close>

theorem get_version_hundredths_counterexample:
  "drop_bit 8 (uint (aversion (sample_header\<lparr>aversion := 0x203\<rparr>))) AND 0x7f = 2
   \<and> uint (aversion (sample_header\<lparr>aversion := 0x203\<rparr>)) AND 0xff = 3
   \<and> fst (get_version (sample_header\<lparr>aversion := 0x203\<rparr>))
       = Inr (Finite (2589569785738035 / 1125899906842624))
   \<and> binary64 (2 + 3 / 100) = Finite (4571153621781053 / 2251799813685248)
   \<and> fst (get_version (sample_header\<lparr>aversion := 0x203\<rparr>)) \<noteq> Inr (binary64 (2 + 3 / 100))
   \<and> fst (get_version (sample_header\<lparr>aversion := 0x203\<rparr>)) \<noteq> Inr (Finite (2 + 3 / 100))"
  unfolding get_version_def Let_def
  by (simp add: sample_header_def str_int_def str_nat.simps digit_char_def float_of_str_def
      is_digit_def digits_val_def digit_val_def binary64_examples)

text \<open>
  C1, amended: for every header, \<^verbatim>\<open>get_version\<close> extracts
  \<open>major = (aversion >> 8) & 0x7F\<close> and \<open>minor = aversion & 0xFF\<close> and returns (it never
  raises) the float of the decimal numeral \<^verbatim>\<open>major.minor\<close>, the minor written without
  leading zeros: the binary64 value nearest to \<open>major + minor / 10 ^ d\<close>, with \<open>d\<close> the
  number of decimal digits of the minor, a finite value. When the minor has two digits
  this is the float nearest to \<open>major + minor / 100\<close> (major 2, minor 30 gives 2.30).
\<close>

theorem get_version_decimal:
  "(let major = drop_bit 8 (uint (aversion h)) AND 0x7f;
        minor = uint (aversion h) AND 0xff
    in fst (get_version h)
         = Inr (binary64 (of_int major + of_int minor
                  / 10 ^ (if minor < 10 then 1 else if minor < 100 then 2 else 3)))
       \<and> (10 \<le> minor \<and> minor < 100 \<longrightarrow>
            fst (get_version h) = Inr (binary64 (of_int major + of_int minor / 100)))
       \<and> (\<exists>r. fst (get_version h) = Inr (Finite r)))"
proof -
  define major :: int where "major = drop_bit 8 (uint (aversion h)) AND 0x7f"
  define minor :: int where "minor = uint (aversion h) AND 0xff"
  define d :: nat where "d = (if minor < 10 then 1 else if minor < 100 then 2 else 3)"
  have M: "0 \<le> major" "major < 128" and N: "0 \<le> minor" "minor < 256"
    unfolding major_def minor_def by (rule version_parts)+
  have len: "length (str_nat (nat minor)) = d"
    unfolding d_def using N length_str_nat_lt_1000 [of "nat minor"] by auto
  have v: "fst (get_version h) = Inr (binary64 (of_int major + of_int minor / 10 ^ d))"
    using get_version_value [of h] len unfolding major_def minor_def by (simp only:)
  have two: "fst (get_version h) = Inr (binary64 (of_int major + of_int minor / 100))"
    if "10 \<le> minor \<and> minor < 100"
    using v that by (simp add: d_def)
  have "(1::rat) \<le> 10 ^ d"
    by simp
  then have "of_int minor / 10 ^ d \<le> (of_int minor :: rat)"
    using N(1) by (simp add: divide_le_eq mult_le_cancel_left1)
  moreover have "(of_int major :: rat) < 128" "(of_int minor :: rat) < 256"
    using M(2) N(2) by simp_all
  ultimately have "of_int major + of_int minor / 10 ^ d < (512 :: rat)"
    by linarith
  moreover have "(0::rat) \<le> of_int major + of_int minor / 10 ^ d"
    using M(1) N(1) by simp
  ultimately have "\<exists>r. binary64 (of_int major + of_int minor / 10 ^ d) = Finite r"
    by (intro binary64_finite)
  then have fin: "\<exists>r. fst (get_version h) = Inr (Finite r)"
    using v by simp
  have two': "10 \<le> minor \<and> minor < 100 \<longrightarrow>
      fst (get_version h) = Inr (binary64 (of_int major + of_int minor / 100))"
    using two by blast
  show ?thesis
    unfolding Let_def
    using v [unfolded d_def major_def minor_def] two' [unfolded major_def minor_def] fin
    by blast
qed

theorem get_version_decimal_witness:
  "fst (get_version sample_header) = Inr (Finite (2589569785738035 / 1125899906842624))
   \<and> fst (get_version (sample_header\<lparr>aversion := 0x21E\<rparr>)) = Inr (binary64 (2 + 30 / 100))
   \<and> fst (get_version (sample_header\<lparr>aversion := 0x21E\<rparr>))
       = Inr (Finite (2589569785738035 / 1125899906842624))"
  using get_version_decimal [of sample_header]
    get_version_decimal [of "sample_header\<lparr>aversion := 0x21E\<rparr>"]
  by (simp add: sample_header_def Let_def binary64_examples)

section \<open>Claims about the declared layouts\<close>

text \<open>
  C8: the first field of \<^verbatim>\<open>Header\<close> is \<^verbatim>\<open>magic\<close>, a \<^verbatim>\<open>c_uint\<close> of 4 bytes at offset 0; the
  next is \<^verbatim>\<open>aversion\<close>, a \<^verbatim>\<open>c_ushort\<close> of 2 bytes at offset 4. A value packed as
  \<open>major << 8 | minor\<close>, with a major of 7 bits and a minor of 8 bits, is read back by
  \<^verbatim>\<open>get_version\<close> as that major and that minor (its result is the float of the numeral
  they spell), and bit 15 of the field does not take part.
\<close>

theorem Header_magic_aversion:
  "take 2 (struct_fields (Header m)) = [(''magic'', c_uint), (''aversion'', c_ushort)]
   \<and> field_offset (Header m) ''magic'' = Some 0 \<and> sizeof c_uint = 4
   \<and> field_offset (Header m) ''aversion'' = Some 4 \<and> sizeof c_ushort = 2
   \<and> fst (get_version (h\<lparr>aversion := push_bit 8 (M AND 0x7f) OR (N AND 0xff)\<rparr>))
       = Inr (binary64 (of_int (uint (M AND 0x7f))
              + of_int (uint (N AND 0xff)) / 10 ^ length (str_int (uint (N AND 0xff)))))
   \<and> fst (get_version (h\<lparr>aversion := w OR 0x8000\<rparr>))
       = fst (get_version (h\<lparr>aversion := w\<rparr>))"
proof -
  have layout: "take 2 (struct_fields (Header m)) = [(''magic'', c_uint), (''aversion'', c_ushort)]"
    "field_offset (Header m) ''magic'' = Some 0"
    "field_offset (Header m) ''aversion'' = Some 4"
    by (simp_all add: Header_def field_offset_def round_up_def)
  have sel: "aversion (h\<lparr>aversion := x\<rparr>) = x" for x
    by simp
  have packed: "fst (get_version (h\<lparr>aversion := push_bit 8 (M AND 0x7f) OR (N AND 0xff)\<rparr>))
       = Inr (binary64 (of_int (uint (M AND 0x7f))
              + of_int (uint (N AND 0xff)) / 10 ^ length (str_int (uint (N AND 0xff)))))"
    by (simp only: get_version_value sel unpack_major unpack_minor
        str_int_nonneg [OF uint_ge_0])
  have msb: "fst (get_version (h\<lparr>aversion := w OR 0x8000\<rparr>))
       = fst (get_version (h\<lparr>aversion := w\<rparr>))"
    by (simp only: get_version_value sel msb_major msb_minor)
  show ?thesis
    using layout packed msb by simp
qed

theorem Header_magic_aversion_witness:
  "field_offset (Header sample_126) ''aversion'' = Some 4
   \<and> fst (get_version (sample_header\<lparr>aversion := push_bit 8 (2 AND 0x7f) OR (30 AND 0xff)\<rparr>))
       = Inr (Finite (2589569785738035 / 1125899906842624))
   \<and> fst (get_version (sample_header\<lparr>aversion := 0x21E OR 0x8000\<rparr>))
       = fst (get_version (sample_header\<lparr>aversion := 0x21E\<rparr>))"
  using Header_magic_aversion [where m = sample_126 and h = sample_header
      and M = 2 and N = 30 and w = "0x21E"]
  by (simp add: str_int_def str_nat.simps binary64_examples)

text \<open>
  C4: each name the 2.30 module takes from the 1.26 module (\<^verbatim>\<open>UTSName\<close>, \<^verbatim>\<open>FreqCnt\<close>,
  \<^verbatim>\<open>WWWStat\<close>, the IPv4, ICMPv4, UDPv4, TCP, IPv6, ICMPv6 and UDPv6 statistics, \<^verbatim>\<open>NETStat\<close>,
  \<^verbatim>\<open>CPU\<close> and \<^verbatim>\<open>DSK\<close>) denotes the definition of the 1.26 module itself, whatever that
  module declares: the layouts are equal, so are their sizes and the result of any
  decoder \<open>decode\<close> on any bytes, and a change of the definition in the 1.26 module is
  the change of the 2.30 name.
\<close>

theorem reused_layouts_alias_atop_126:
  "map (\<lambda>L. L m) [UTSName, FreqCnt, WWWStat, IPv4Stats, ICMPv4Stats, UDPv4Stats, TCPStats,
                   IPv6Stats, ICMPv6Stats, UDPv6Stats, NETStat, CPU, DSK]
     = map (\<lambda>L. L m) [atop_126.UTSName, atop_126.FreqCnt, atop_126.WWWStat,
                   atop_126.IPv4Stats, atop_126.ICMPv4Stats, atop_126.UDPv4Stats,
                   atop_126.TCPStats, atop_126.IPv6Stats, atop_126.ICMPv6Stats,
                   atop_126.UDPv6Stats, atop_126.NETStat, atop_126.CPU, atop_126.DSK]
   \<and> map (\<lambda>L. sizeof (L m)) [UTSName, FreqCnt, WWWStat, IPv4Stats, ICMPv4Stats, UDPv4Stats,
                   TCPStats, IPv6Stats, ICMPv6Stats, UDPv6Stats, NETStat, CPU, DSK]
     = map (\<lambda>L. sizeof (L m)) [atop_126.UTSName, atop_126.FreqCnt, atop_126.WWWStat,
                   atop_126.IPv4Stats, atop_126.ICMPv4Stats, atop_126.UDPv4Stats,
                   atop_126.TCPStats, atop_126.IPv6Stats, atop_126.ICMPv6Stats,
                   atop_126.UDPv6Stats, atop_126.NETStat, atop_126.CPU, atop_126.DSK]
   \<and> map (\<lambda>L. decode (L m) bytes) [UTSName, FreqCnt, WWWStat, IPv4Stats, ICMPv4Stats,
                   UDPv4Stats, TCPStats, IPv6Stats, ICMPv6Stats, UDPv6Stats, NETStat, CPU, DSK]
     = map (\<lambda>L. decode (L m) bytes) [atop_126.UTSName, atop_126.FreqCnt, atop_126.WWWStat,
                   atop_126.IPv4Stats, atop_126.ICMPv4Stats, atop_126.UDPv4Stats,
                   atop_126.TCPStats, atop_126.IPv6Stats, atop_126.ICMPv6Stats,
                   atop_126.UDPv6Stats, atop_126.NETStat, atop_126.CPU, atop_126.DSK]
   \<and> UTSName (m\<lparr>atop_126.UTSName := t\<rparr>) = t
   \<and> FreqCnt (m\<lparr>atop_126.FreqCnt := t\<rparr>) = t
   \<and> WWWStat (m\<lparr>atop_126.WWWStat := t\<rparr>) = t
   \<and> IPv4Stats (m\<lparr>atop_126.IPv4Stats := t\<rparr>) = t
   \<and> ICMPv4Stats (m\<lparr>atop_126.ICMPv4Stats := t\<rparr>) = t
   \<and> UDPv4Stats (m\<lparr>atop_126.UDPv4Stats := t\<rparr>) = t
   \<and> TCPStats (m\<lparr>atop_126.TCPStats := t\<rparr>) = t
   \<and> IPv6Stats (m\<lparr>atop_126.IPv6Stats := t\<rparr>) = t
   \<and> ICMPv6Stats (m\<lparr>atop_126.ICMPv6Stats := t\<rparr>) = t
   \<and> UDPv6Stats (m\<lparr>atop_126.UDPv6Stats := t\<rparr>) = t
   \<and> NETStat (m\<lparr>atop_126.NETStat := t\<rparr>) = t
   \<and> CPU (m\<lparr>atop_126.CPU := t\<rparr>) = t
   \<and> DSK (m\<lparr>atop_126.DSK := t\<rparr>) = t"
  by (simp add: UTSName_def FreqCnt_def WWWStat_def IPv4Stats_def ICMPv4Stats_def
      UDPv4Stats_def TCPStats_def IPv6Stats_def ICMPv6Stats_def UDPv6Stats_def NETStat_def
      CPU_def DSK_def)

text \<open>
  C5: within \<^verbatim>\<open>SStat\<close> the per-core array is declared with 2048 \<^verbatim>\<open>PerCPU\<close> entries, the
  per-disk array with 1024, the per-interface array with 128, the per-container array with
  128 and the per-NFS-mount array with 64. The lengths are constants of the array types
  (an instance of a ctypes array type \<^verbatim>\<open>t * n\<close> has \<open>n\<close> entries), each array occupies
  \<open>n\<close> times the size of its entry, and the count fields (\<^verbatim>\<open>nrcpu\<close>, \<^verbatim>\<open>ndsk\<close>,
  \<^verbatim>\<open>nrintf\<close>, \<^verbatim>\<open>nrcontainer\<close>, \<^verbatim>\<open>nrmounts\<close>) are separate scalar fields beside them.
\<close>

theorem SStat_arrays_have_declared_maxima:
  "field_type (SStat m) ''cpu'' = Some (CPUStat m)
   \<and> field_type (CPUStat m) ''cpu'' = Some (Array (PerCPU m) 2048)
   \<and> field_type (CPUStat m) ''nrcpu'' = Some count_t
   \<and> field_type (SStat m) ''dsk'' = Some DSKStat
   \<and> field_type DSKStat ''dsk'' = Some (Array PerDSK 1024)
   \<and> field_type DSKStat ''ndsk'' = Some c_int
   \<and> field_type (SStat m) ''intf'' = Some IntfStat
   \<and> field_type IntfStat ''intf'' = Some (Array PerIntf 128)
   \<and> field_type IntfStat ''nrintf'' = Some c_int
   \<and> field_type (SStat m) ''cfs'' = Some ContStat
   \<and> field_type ContStat ''cont'' = Some (Array PerContainer 128)
   \<and> field_type ContStat ''nrcontainer'' = Some c_int
   \<and> field_type (SStat m) ''nfs'' = Some NFSStat
   \<and> field_type NFSStat ''nfsmounts'' = Some NFSMounts
   \<and> field_type NFSMounts ''pernfsmount'' = Some (Array PerNFSMount 64)
   \<and> field_type NFSMounts ''nrmounts'' = Some c_int
   \<and> sizeof (Array (PerCPU m) 2048) = sizeof (PerCPU m) * 2048
   \<and> sizeof (Array PerDSK 1024) = sizeof PerDSK * 1024
   \<and> sizeof (Array PerIntf 128) = sizeof PerIntf * 128
   \<and> sizeof (Array PerContainer 128) = sizeof PerContainer * 128
   \<and> sizeof (Array PerNFSMount 64) = sizeof PerNFSMount * 64"
  by (simp add: field_type_def SStat_def CPUStat_def DSKStat_def IntfStat_def ContStat_def
      NFSStat_def NFSMounts_def MAXCPU_def MAXDSK_def MAXINTF_def MAXCONTAINER_def
      MAXNFSMOUNT_def)

text \<open>
  C6, as stated: the sub-records of \<^verbatim>\<open>SStat\<close> are laid out in the order \<^verbatim>\<open>CPUStat\<close>,
  \<^verbatim>\<open>MemStat\<close>, \<^verbatim>\<open>DSKStat\<close>, \<^verbatim>\<open>IntfStat\<close>, \<^verbatim>\<open>NFSStat\<close>, \<^verbatim>\<open>ContStat\<close>, \<^verbatim>\<open>NETStat\<close>,
  \<^verbatim>\<open>WWWStat\<close>. The declared order differs: the third field is \<^verbatim>\<open>net\<close> and the fifth
  is \<^verbatim>\<open>dsk\<close>.
\<close>

theorem SStat_claimed_order_counterexample:
  "map snd (struct_fields (SStat sample_126))
     \<noteq> [CPUStat sample_126, MemStat, DSKStat, IntfStat, NFSStat, ContStat,
         NETStat sample_126, WWWStat sample_126]
   \<and> map fst (struct_fields (SStat sample_126)) ! 2 = ''net''
   \<and> map fst (struct_fields (SStat sample_126)) ! 4 = ''dsk''"
  by (simp add: SStat_def DSKStat_def NFSStat_def)

text \<open>
  C6, amended: \<^verbatim>\<open>SStat\<close> is composed of exactly the sub-records \<^verbatim>\<open>CPUStat\<close>, \<^verbatim>\<open>MemStat\<close>,
  \<^verbatim>\<open>NETStat\<close>, \<^verbatim>\<open>IntfStat\<close>, \<^verbatim>\<open>DSKStat\<close>, \<^verbatim>\<open>NFSStat\<close>, \<^verbatim>\<open>ContStat\<close>, \<^verbatim>\<open>WWWStat\<close>, in
  this order, and the offset of each is determined by the order: it is the end
  of the fields before it, rounded up to its own alignment (0 for the first).
\<close>

theorem SStat_field_order:
  "struct_fields (SStat m) =
     [(''cpu'', CPUStat m), (''mem'', MemStat), (''net'', NETStat m), (''intf'', IntfStat),
      (''dsk'', DSKStat), (''nfs'', NFSStat), (''cfs'', ContStat), (''www'', WWWStat m)]
   \<and> field_offset (SStat m) ''cpu'' = Some 0
   \<and> map (field_offset (SStat m))
        [''cpu'', ''mem'', ''net'', ''intf'', ''dsk'', ''nfs'', ''cfs'', ''www'']
     = map (\<lambda>k. Some (round_up (end_offset (take k (struct_fields (SStat m))) 0)
                              (alignment (snd (struct_fields (SStat m) ! k)))))
        [0, 1, 2, 3, 4, 5, 6, 7]"
proof -
  have "round_up 0 a = 0" for a
    by (simp add: round_up_def)
  then show ?thesis
    by (simp add: SStat_def field_offset_def)
qed

text \<open>
  C7, as stated: \<^verbatim>\<open>Record\<close> has fields for both the compressed and the uncompressed
  lengths of the two blobs. Of its 17 fields, the only ones described as a length are
  \<^verbatim>\<open>scomplen\<close> and \<^verbatim>\<open>pcomplen\<close>, both lengths of the compressed data.
\<close>

theorem Record_length_fields_counterexample:
  "filter (\<lambda>f. take 6 (snd f) = ''Length'') Record_doc
     = [(''scomplen'', ''Length of compressed sstat.''),
        (''pcomplen'', ''Length of compressed tstats.'')]
   \<and> length (struct_fields Record) = 17"
  by (simp add: Record_doc_def Record_def)

text \<open>
  C7, amended: \<^verbatim>\<open>Record\<close> contains the sample timestamp (\<^verbatim>\<open>curtime\<close>), the flags, the
  compressed lengths of the following \<^verbatim>\<open>SStat\<close> and \<^verbatim>\<open>TStat\<close> blobs (\<^verbatim>\<open>scomplen\<close>,
  \<^verbatim>\<open>pcomplen\<close>), the interval, and the counts of tasks, processes and threads, among them
  \<^verbatim>\<open>ndeviat\<close>, the number of tasks in the list. The uncompressed lengths are not in the
  \<^verbatim>\<open>Record\<close>; the lengths of the structures are the \<^verbatim>\<open>Header\<close> fields \<^verbatim>\<open>sstatlen\<close> and
  \<^verbatim>\<open>tstatlen\<close>.
\<close>

theorem Record_fields:
  "struct_fields Record =
     [(''curtime'', time_t), (''flags'', c_ushort), (''sfuture'', Array c_ushort 3),
      (''scomplen'', c_uint), (''pcomplen'', c_uint), (''interval'', c_uint),
      (''ndeviat'', c_uint), (''nactproc'', c_uint), (''ntask'', c_uint),
      (''totproc'', c_uint), (''totrun'', c_uint), (''totslpi'', c_uint),
      (''totslpu'', c_uint), (''totzomb'', c_uint), (''nexit'', c_uint),
      (''noverflow'', c_uint), (''ifuture'', Array c_uint 6)]
   \<and> map_of Record_doc ''curtime'' = Some ''Current time (epoch).''
   \<and> map_of Record_doc ''flags'' = Some ''Various flags.''
   \<and> map_of Record_doc ''scomplen'' = Some ''Length of compressed sstat.''
   \<and> map_of Record_doc ''pcomplen'' = Some ''Length of compressed tstats.''
   \<and> map_of Record_doc ''interval'' = Some ''Interval (number of seconds).''
   \<and> map_of Record_doc ''ndeviat'' = Some ''Number of tasks in list.''
   \<and> field_type (Header m) ''sstatlen'' = Some c_uint
   \<and> field_type (Header m) ''tstatlen'' = Some c_uint"
  by (simp add: Record_def Record_doc_def Header_def field_type_def)

end
